theory Spec2Isabelle
  imports Main "HOL-Library.Multiset" "HOL-Library.Sublist" "HOL-Library.AList"
begin

section \<open>The blog's content utilities, configuration and theming\<close>

text \<open>
  A shallow embedding of \<^verbatim>\<open>utils/mdx-utils.js\<close>, of \<^verbatim>\<open>getGlobalData\<close>, of the
  \<^verbatim>\<open>themesConfig\<close> plugin in \<^verbatim>\<open>utils/tailwind-preset.js\<close> and of the theme effect of
  \<^verbatim>\<open>components/Layout.js\<close>.

  JavaScript strings are modelled as \<^typ>\<open>string\<close>, read as the UTF-8 bytes of the text.
  An exception is a value \<open>Inl err\<close> of a sum type; \<^verbatim>\<open>undefined\<close> and \<^verbatim>\<open>null\<close> are
  \<open>None\<close>.
\<close>

datatype js_error = FsError | MatterError | SerializeError | TypeError | URIError

subsection \<open>The regular expression \<^verbatim>\<open>/\.mdx?$/\<close>\<close>

text \<open>
  \<open>match_here s\<close> runs the pattern anchored at the start of \<open>s\<close>: a dot, \<^verbatim>\<open>m\<close>, \<^verbatim>\<open>d\<close>, a
  greedy optional \<^verbatim>\<open>x\<close>, then the end of the input (no \<^verbatim>\<open>m\<close> flag, so \<^verbatim>\<open>$\<close> is the end of
  the string only). It returns the length of the match. When the optional \<^verbatim>\<open>x\<close> is taken
  and the end does not follow, backtracking retries with the \<^verbatim>\<open>x\<close> left out, where the end
  does not follow either.
\<close>

fun match_here :: "string \<Rightarrow> nat option" where
  "match_here (c1 # c2 # c3 # rest) =
     (if c1 = CHR ''.'' \<and> c2 = CHR ''m'' \<and> c3 = CHR ''d'' then
        (case rest of
           [] \<Rightarrow> Some 3
         | x # rest' \<Rightarrow> if x = CHR ''x'' \<and> rest' = [] then Some 4 else None)
      else None)"
| "match_here _ = None"

text \<open>
  The engine tries every start position from the left: \<open>regex_exec k s\<close> searches \<open>s\<close>,
  whose first character has index \<open>k\<close> in the whole input, and returns the index and the
  length of the leftmost match.
\<close>

fun regex_exec :: "nat \<Rightarrow> string \<Rightarrow> (nat \<times> nat) option" where
  "regex_exec k [] = None"
| "regex_exec k (c # s) =
     (case match_here (c # s) of
        Some n \<Rightarrow> Some (k, n)
      | None \<Rightarrow> regex_exec (Suc k) s)"

definition regex_test :: "string \<Rightarrow> bool" where
  \<comment> \<open>\<^verbatim>\<open>/\.mdx?$/.test(path)\<close>\<close>
  "regex_test path = (regex_exec 0 path \<noteq> None)"

definition regex_replace :: "string \<Rightarrow> string" where
  \<comment> \<open>\<^verbatim>\<open>str.replace(/\.mdx?$/, '')\<close>: the leftmost match is cut out, no match leaves the string\<close>
  "regex_replace str =
     (case regex_exec 0 str of
        None \<Rightarrow> str
      | Some (i, n) \<Rightarrow> take i str @ drop (i + n) str)"

subsection \<open>Posts and the environment of \<^verbatim>\<open>mdx-utils\<close>\<close>

text \<open>
  The front matter that the code reads: \<^verbatim>\<open>data.title\<close> (\<open>None\<close> when the key is absent) and
  \<^verbatim>\<open>data.date\<close>. The only use of \<^verbatim>\<open>data.date\<close> is \<^verbatim>\<open>new Date(data.date)\<close>, so the field holds
  the time value of that Date object: milliseconds since the epoch, or \<open>None\<close> for an
  Invalid Date, whose time value is NaN.
\<close>

record front_matter =
  title :: "string option"
  date :: "int option"

record post =
  content :: string
  data :: front_matter
  filePath :: string

text \<open>
  What the module reads from outside: the listing of \<^verbatim>\<open>POSTS_PATH\<close> (\<open>None\<close> when
  \<^verbatim>\<open>fs.readdirSync\<close> throws), the contents of the file at \<^verbatim>\<open>path.join(POSTS_PATH, name)\<close>
  keyed by \<open>name\<close> (\<open>None\<close> when \<^verbatim>\<open>fs.readFileSync\<close> throws: no such file, or a directory),
  the \<^verbatim>\<open>gray-matter\<close> parser (\<open>None\<close> when it throws on malformed front matter) and the MDX
  serializer of \<^verbatim>\<open>next-mdx-remote\<close> (\<open>None\<close> when the promise rejects). A name is a
  directory entry or a slug followed by \<^verbatim>\<open>.mdx\<close>; \<^verbatim>\<open>path.join\<close> rewrites a name only when it
  has \<^verbatim>\<open>.\<close> or \<^verbatim>\<open>..\<close> segments, which no directory entry has.
\<close>

record env =
  readdirSync :: "string list option"
  readFileSync :: "string \<Rightarrow> string option"
  matter :: "string \<Rightarrow> (string \<times> front_matter) option"
  serialize :: "string \<Rightarrow> front_matter \<Rightarrow> string option"

definition getPostFilePaths :: "env \<Rightarrow> js_error + string list" where
  "getPostFilePaths e =
     (case readdirSync e of
        None \<Rightarrow> Inl FsError
      | Some names \<Rightarrow> Inr (filter (\<lambda>path. regex_test path) names))"

subsection \<open>Sorting by date\<close>

text \<open>
  The comparator of \<^verbatim>\<open>sortPostsByDate\<close>: \<^verbatim>\<open>bDate - aDate\<close> on the two time values, NaN
  (\<open>None\<close>) when either date is invalid. Time values are integers of magnitude at most
  8.64e15, so the sign of the floating-point difference is the sign of the integer
  difference.
\<close>

definition compareDates :: "post \<Rightarrow> post \<Rightarrow> int option" where
  "compareDates a b =
     (let aDate = date (data a); bDate = date (data b)
      in case (bDate, aDate) of
           (Some tb, Some ta) \<Rightarrow> Some (tb - ta)
         | _ \<Rightarrow> None)"

text \<open>
  \<^verbatim>\<open>Array.prototype.sort\<close> with a comparator. The language fixes the result when the
  comparator is consistent: a stable sort, where a NaN from the comparator counts as \<open>0\<close>.
  The model is the stable insertion sort. When some date is invalid the comparator is not
  consistent, the order is left to the engine, and the model is one of the permitted
  orders; no statement below about the order of the result relies on it there.
\<close>

definition sortCompare :: "('a \<Rightarrow> 'a \<Rightarrow> int option) \<Rightarrow> 'a \<Rightarrow> 'a \<Rightarrow> int" where
  "sortCompare comparefn x y = (case comparefn x y of None \<Rightarrow> 0 | Some v \<Rightarrow> v)"

fun place :: "('a \<Rightarrow> 'a \<Rightarrow> int option) \<Rightarrow> 'a \<Rightarrow> 'a list \<Rightarrow> 'a list" where
  "place comparefn x [] = [x]"
| "place comparefn x (y # ys) =
     (if sortCompare comparefn x y \<le> 0 then x # y # ys
      else y # place comparefn x ys)"

fun sorted_items :: "('a \<Rightarrow> 'a \<Rightarrow> int option) \<Rightarrow> 'a list \<Rightarrow> 'a list" where
  "sorted_items comparefn [] = []"
| "sorted_items comparefn (x # xs) = place comparefn x (sorted_items comparefn xs)"

text \<open>
  Arrays are objects: a variable holds a reference, and the store maps each reference to
  the elements of its array. \<^verbatim>\<open>posts.sort(f)\<close> writes the sorted elements into the array it
  was called on and returns the reference it was called on.
\<close>

type_synonym ref = nat
type_synonym store = "ref \<Rightarrow> post list"

definition Array_sort :: "(post \<Rightarrow> post \<Rightarrow> int option) \<Rightarrow> ref \<Rightarrow> store \<Rightarrow> ref \<times> store" where
  "Array_sort comparefn this h = (this, h(this := sorted_items comparefn (h this)))"

definition sortPostsByDate :: "ref \<Rightarrow> store \<Rightarrow> ref \<times> store" where
  "sortPostsByDate posts h = Array_sort compareDates posts h"

subsection \<open>Loading the posts\<close>

text \<open>\<^verbatim>\<open>Array.prototype.map\<close> with a callback that may throw: the first exception ends the loop.\<close>

fun map_throwing :: "('a \<Rightarrow> js_error + 'b) \<Rightarrow> 'a list \<Rightarrow> js_error + 'b list" where
  "map_throwing f [] = Inr []"
| "map_throwing f (x # xs) =
     (case f x of
        Inl err \<Rightarrow> Inl err
      | Inr y \<Rightarrow> (case map_throwing f xs of Inl err \<Rightarrow> Inl err | Inr ys \<Rightarrow> Inr (y # ys)))"

definition readPost :: "env \<Rightarrow> string \<Rightarrow> js_error + post" where
  \<comment> \<open>the callback of \<^verbatim>\<open>getPosts\<close>\<close>
  "readPost e path =
     (case readFileSync e path of
        None \<Rightarrow> Inl FsError
      | Some source \<Rightarrow>
          (case matter e source of
             None \<Rightarrow> Inl MatterError
           | Some (c, d) \<Rightarrow> Inr \<lparr>content = c, data = d, filePath = path\<rparr>))"

text \<open>
  \<^verbatim>\<open>getPosts\<close> builds a fresh array (reference \<open>0\<close> of an otherwise empty store), passes it
  to \<^verbatim>\<open>sortPostsByDate\<close> and returns what comes back; the model returns the elements of
  the returned array.
\<close>

definition getPosts :: "env \<Rightarrow> js_error + post list" where
  "getPosts e =
     (case getPostFilePaths e of
        Inl err \<Rightarrow> Inl err
      | Inr paths \<Rightarrow>
          (case map_throwing (readPost e) paths of
             Inl err \<Rightarrow> Inl err
           | Inr loaded \<Rightarrow>
               (let h = (\<lambda>_. [])(0 := loaded);
                    (posts, h') = sortPostsByDate 0 h
                in Inr (h' posts))))"

record mdx_post =
  mdxSource :: string
  mdx_data :: front_matter
  mdx_postFilePath :: string

definition getPostBySlug :: "env \<Rightarrow> string \<Rightarrow> js_error + mdx_post" where
  \<comment> \<open>\<open>postFilePath\<close> is given relative to \<^verbatim>\<open>POSTS_PATH\<close>, as the files of \<^typ>\<open>env\<close> are\<close>
  "getPostBySlug e slug =
     (let postFilePath = slug @ ''.mdx''
      in case readFileSync e postFilePath of
           None \<Rightarrow> Inl FsError
         | Some source \<Rightarrow>
             (case matter e source of
                None \<Rightarrow> Inl MatterError
              | Some (c, d) \<Rightarrow>
                  (case serialize e c d of
                     None \<Rightarrow> Inl SerializeError
                   | Some m \<Rightarrow> Inr \<lparr>mdxSource = m, mdx_data = d, mdx_postFilePath = postFilePath\<rparr>)))"

subsection \<open>Adjacent posts\<close>

text \<open>
  \<^verbatim>\<open>posts.indexOf(x)\<close>: the index of the first element strictly equal to \<open>x\<close>, or \<open>-1\<close>.
  No element of \<^verbatim>\<open>posts\<close> is \<^verbatim>\<open>undefined\<close>, so \<^verbatim>\<open>indexOf(undefined)\<close> is \<open>-1\<close>. Strict
  equality of objects is identity; the argument is always the element that \<^verbatim>\<open>find\<close>
  returned, and \<open>indexOf_find\<close> below shows that equality of values finds that element.
\<close>

fun index_from :: "int \<Rightarrow> 'a list \<Rightarrow> 'a \<Rightarrow> int" where
  "index_from k [] x = -1"
| "index_from k (y # ys) x = (if y = x then k else index_from (k + 1) ys x)"

definition indexOf :: "'a list \<Rightarrow> 'a option \<Rightarrow> int" where
  "indexOf xs x = (case x of None \<Rightarrow> -1 | Some v \<Rightarrow> index_from 0 xs v)"

definition element :: "'a list \<Rightarrow> int \<Rightarrow> 'a option" where
  \<comment> \<open>\<^verbatim>\<open>posts[i]\<close>: \<^verbatim>\<open>undefined\<close> outside the array, negative indices included\<close>
  "element xs i = (if 0 \<le> i \<and> i < int (length xs) then Some (xs ! nat i) else None)"

record post_link =
  link_title :: "string option"
  link_slug :: string

definition getNextPostBySlug :: "env \<Rightarrow> string \<Rightarrow> js_error + post_link option" where
  "getNextPostBySlug e slug =
     (case getPosts e of
        Inl err \<Rightarrow> Inl err
      | Inr posts \<Rightarrow>
          (let currentFileName = slug @ ''.mdx'';
               currentPost = find (\<lambda>post. filePath post = currentFileName) posts;
               currentPostIndex = indexOf posts currentPost
           in case element posts (currentPostIndex - 1) of
                None \<Rightarrow> Inr None
              | Some post \<Rightarrow>
                  (let nextPostSlug = regex_replace (filePath post)
                   in Inr (Some \<lparr>link_title = title (data post), link_slug = nextPostSlug\<rparr>))))"

definition getPreviousPostBySlug :: "env \<Rightarrow> string \<Rightarrow> js_error + post_link option" where
  "getPreviousPostBySlug e slug =
     (case getPosts e of
        Inl err \<Rightarrow> Inl err
      | Inr posts \<Rightarrow>
          (let currentFileName = slug @ ''.mdx'';
               currentPost = find (\<lambda>post. filePath post = currentFileName) posts;
               currentPostIndex = indexOf posts currentPost
           in case element posts (currentPostIndex + 1) of
                None \<Rightarrow> Inr None
              | Some post \<Rightarrow>
                  (let previousPostSlug = regex_replace (filePath post)
                   in Inr (Some \<lparr>link_title = title (data post), link_slug = previousPostSlug\<rparr>))))"

subsection \<open>\<^verbatim>\<open>decodeURI\<close>\<close>

text \<open>
  The built-in \<^verbatim>\<open>decodeURI\<close>, after the \<^verbatim>\<open>Decode\<close> operation of the language standard. An
  escape \<^verbatim>\<open>%XX\<close> below \<open>0x80\<close> becomes its character unless the character is reserved
  (\<^verbatim>\<open>;/?:@&=+$,#\<close>), in which case the escape stays; an escape from \<open>0x80\<close> on opens a UTF-8
  sequence of two to four escaped octets, which must encode a code point. Everything else
  throws a URIError (\<open>None\<close>). The decoded code point is written as its UTF-8 bytes, which
  are the octets themselves.
\<close>

definition hex_value :: "char \<Rightarrow> nat option" where
  "hex_value c =
     (let n = (of_char c :: nat)
      in if 48 \<le> n \<and> n \<le> 57 then Some (n - 48)
         else if 65 \<le> n \<and> n \<le> 70 then Some (n - 55)
         else if 97 \<le> n \<and> n \<le> 102 then Some (n - 87)
         else None)"

definition ParseHexOctet :: "char \<Rightarrow> char \<Rightarrow> nat option" where
  "ParseHexOctet h1 h2 =
     (case (hex_value h1, hex_value h2) of
        (Some a, Some b) \<Rightarrow> Some (16 * a + b)
      | _ \<Rightarrow> None)"

definition leading_ones :: "nat \<Rightarrow> nat" where
  \<comment> \<open>the number of leading 1 bits of an octet\<close>
  "leading_ones B =
     (if B < 128 then 0 else if B < 192 then 1 else if B < 224 then 2
      else if B < 240 then 3 else if B < 248 then 4 else 5)"

text \<open>The \<open>j\<close> escaped continuation octets that must follow the first octet of a sequence.\<close>

fun continuation_octets :: "nat \<Rightarrow> string \<Rightarrow> nat list option" where
  "continuation_octets 0 s = Some []"
| "continuation_octets (Suc j) (p # h1 # h2 # s) =
     (if p \<noteq> CHR ''%'' then None
      else case ParseHexOctet h1 h2 of
             None \<Rightarrow> None
           | Some b \<Rightarrow> map_option ((#) b) (continuation_octets j s))"
| "continuation_octets (Suc j) _ = None"

definition utf8_code_point :: "nat list \<Rightarrow> nat" where
  \<comment> \<open>the UTF-8 transformation of two to four octets into a 21-bit value\<close>
  "utf8_code_point octets =
     (case octets of
        [b0, b1] \<Rightarrow> (b0 mod 32) * 64 + b1 mod 64
      | [b0, b1, b2] \<Rightarrow> (b0 mod 16) * 4096 + (b1 mod 64) * 64 + b2 mod 64
      | [b0, b1, b2, b3] \<Rightarrow> (b0 mod 8) * 262144 + (b1 mod 64) * 4096 + (b2 mod 64) * 64 + b3 mod 64
      | _ \<Rightarrow> 0)"

definition valid_utf8 :: "nat list \<Rightarrow> bool" where
  \<comment> \<open>continuation octets are \<open>10xxxxxx\<close>, the encoding is the shortest one, and the code
      point is at most \<open>0x10FFFF\<close> and no surrogate\<close>
  "valid_utf8 octets =
     (let V = utf8_code_point octets;
          least = (if length octets = 2 then 128 else if length octets = 3 then 2048 else 65536)
      in (\<forall>b \<in> set (tl octets). 128 \<le> b \<and> b < 192)
         \<and> least \<le> V \<and> V \<le> 1114111 \<and> \<not> (55296 \<le> V \<and> V \<le> 57343))"

fun Decode :: "string \<Rightarrow> string \<Rightarrow> string option" where
  "Decode preserveEscapeSet [] = Some []"
| "Decode preserveEscapeSet (C # s) =
     (if C \<noteq> CHR ''%'' then map_option ((#) C) (Decode preserveEscapeSet s)
      else case s of
             h1 # h2 # rest \<Rightarrow>
               (case ParseHexOctet h1 h2 of
                  None \<Rightarrow> None
                | Some B \<Rightarrow>
                    (let n = leading_ones B
                     in if n = 0 then
                          (let asciiChar = char_of B;
                               S = (if asciiChar \<in> set preserveEscapeSet then [C, h1, h2]
                                    else [asciiChar])
                           in map_option ((@) S) (Decode preserveEscapeSet rest))
                        else if n = 1 \<or> n > 4 then None
                        else
                          (case continuation_octets (n - 1) rest of
                             None \<Rightarrow> None
                           | Some cont \<Rightarrow>
                               if valid_utf8 (B # cont) then
                                 map_option ((@) (map char_of (B # cont)))
                                   (Decode preserveEscapeSet (drop (3 * (n - 1)) rest))
                               else None)))
           | _ \<Rightarrow> None)"

definition decodeURI :: "string \<Rightarrow> string option" where
  "decodeURI encodedURI = Decode '';/?:@&=+$,#'' encodedURI"

subsection \<open>Global data\<close>

text \<open>
  \<^verbatim>\<open>process.env\<close> maps the names of the variables that are set to their values, which are
  strings. A value is truthy when it is not the empty string.
\<close>

type_synonym process_env = "string \<Rightarrow> string option"


definition decoded_or :: "process_env \<Rightarrow> string \<Rightarrow> string \<Rightarrow> js_error + string" where
  \<comment> \<open>\<^verbatim>\<open>process.env.X ? decodeURI(process.env.X) : dflt\<close>\<close>
  "decoded_or penv var dflt =
     (case penv var of
        None \<Rightarrow> Inr dflt
      | Some v \<Rightarrow>
          if v = [] then Inr dflt
          else (case decodeURI v of None \<Rightarrow> Inl URIError | Some d \<Rightarrow> Inr d))"


subsection \<open>The theme plugin\<close>










subsection \<open>The theme of the layout\<close>

text \<open>
  The part of the browser that \<^verbatim>\<open>Layout\<close> touches: \<^verbatim>\<open>localStorage\<close>, the class list of
  \<^verbatim>\<open>document.documentElement\<close> (a list of distinct tokens) and whether the media query has
  an \<^verbatim>\<open>onchange\<close> handler.
\<close>

record browser =
  localStorage :: "string \<Rightarrow> string option"
  classList :: "string list"
  onchange_set :: bool

definition classList_add :: "string \<Rightarrow> string list \<Rightarrow> string list" where
  "classList_add token tokens = (if token \<in> set tokens then tokens else tokens @ [token])"

definition classList_remove :: "string \<Rightarrow> string list \<Rightarrow> string list" where
  "classList_remove token tokens = filter (\<lambda>t. t \<noteq> token) tokens"

definition setAppTheme :: "browser \<Rightarrow> browser" where
  "setAppTheme b =
     (let darkMode = (localStorage b ''theme'' = Some ''dark'');
          lightMode = (localStorage b ''theme'' = Some ''light'')
      in if darkMode then b\<lparr>classList := classList_add ''dark'' (classList b)\<rparr>
         else if lightMode then b\<lparr>classList := classList_remove ''dark'' (classList b)\<rparr>
         else b)"

definition handleSystemThemeChange :: "browser \<Rightarrow> browser" where
  \<comment> \<open>installs the handler; nothing else happens until the system preference changes\<close>
  "handleSystemThemeChange b = b\<lparr>onchange_set := True\<rparr>"

definition darkQuery_onchange :: "bool \<Rightarrow> browser \<Rightarrow> browser" where
  \<comment> \<open>the installed handler, on an event whose \<^verbatim>\<open>matches\<close> is the first argument\<close>
  "darkQuery_onchange matches b =
     (if matches then
        b\<lparr>classList := classList_add ''dark'' (classList b),
          localStorage := (localStorage b)(''theme'' \<mapsto> ''dark'')\<rparr>
      else
        b\<lparr>classList := classList_remove ''dark'' (classList b),
          localStorage := (localStorage b)(''theme'' \<mapsto> ''light'')\<rparr>)"

definition Layout_mount :: "browser \<Rightarrow> browser" where
  \<comment> \<open>the two effects with an empty dependency list, in the order they are declared\<close>
  "Layout_mount b = handleSystemThemeChange (setAppTheme b)"

subsection \<open>Comparing dates\<close>

text \<open>
  \<open>date_ge a b\<close> is the JavaScript comparison \<^verbatim>\<open>aDate >= bDate\<close> of the Date objects of two
  posts: false as soon as one of them is an Invalid Date. \<open>valid_date p\<close> says that the
  date of \<open>p\<close> parses.
\<close>

definition date_ge :: "post \<Rightarrow> post \<Rightarrow> bool" where
  "date_ge a b =
     (case (date (data a), date (data b)) of
        (Some ta, Some tb) \<Rightarrow> tb \<le> ta
      | _ \<Rightarrow> False)"

definition valid_date :: "post \<Rightarrow> bool" where
  "valid_date p = (date (data p) \<noteq> None)"

subsection \<open>Example inputs\<close>

text \<open>
  Three posts with the dates 1 January, 1 February and 1 March 2024, a post whose date is
  a text that does not parse (\<^verbatim>\<open>date: soon\<close>), a posts directory that also holds a file that
  is no post, a directory whose only post is a \<^verbatim>\<open>.md\<close> file, a store with two arrays, and
  the two theme tables. The functions are run on them below.
\<close>

definition hello :: post where
  "hello = \<lparr>content = ''Hello, world.'',
            data = \<lparr>title = Some ''Hello'', date = Some 1704067200000\<rparr>,
            filePath = ''hello.mdx''\<rparr>"

definition draft :: post where
  "draft = \<lparr>content = ''Work in progress.'',
            data = \<lparr>title = Some ''Draft'', date = Some 1706745600000\<rparr>,
            filePath = ''draft.md''\<rparr>"

definition launch :: post where
  "launch = \<lparr>content = ''We are live.'',
             data = \<lparr>title = Some ''Launch'', date = Some 1709251200000\<rparr>,
             filePath = ''launch.mdx''\<rparr>"

definition teaser :: post where
  "teaser = \<lparr>content = ''Coming soon.'',
              data = \<lparr>title = Some ''Teaser'', date = None\<rparr>,
              filePath = ''teaser.mdx''\<rparr>"

definition example_env :: env where
  "example_env =
     \<lparr>readdirSync = Some [''hello.mdx'', ''notes.txt'', ''launch.mdx'', ''draft.md''],
      readFileSync = map_of [(''hello.mdx'', ''H''), (''launch.mdx'', ''L''), (''draft.md'', ''D'')],
      matter = map_of [(''H'', (content hello, data hello)), (''L'', (content launch, data launch)),
                       (''D'', (content draft, data draft))],
      serialize = (\<lambda>c d. Some c)\<rparr>"

definition md_only_env :: env where
  "md_only_env =
     \<lparr>readdirSync = Some [''draft.md''],
      readFileSync = map_of [(''draft.md'', ''D'')],
      matter = map_of [(''D'', (content draft, data draft))],
      serialize = (\<lambda>c d. Some c)\<rparr>"

definition example_store :: store where
  "example_store = (\<lambda>_. [])(0 := [hello, launch, draft], 1 := [hello, teaser, launch])"



section \<open>Properties\<close>

subsection \<open>The examples, evaluated\<close>

text \<open>The call \<^verbatim>\<open>sortPostsByDate(posts)\<close> as one update of the store.\<close>

lemma sortPostsByDate_store:
  "sortPostsByDate r h = (r, h(r := sorted_items compareDates (h r)))"
  by (simp add: sortPostsByDate_def Array_sort_def)

lemma example_readPost:
  "readPost example_env ''hello.mdx'' = Inr hello"
  "readPost example_env ''launch.mdx'' = Inr launch"
  "readPost example_env ''draft.md'' = Inr draft"
  by (simp_all add: readPost_def example_env_def hello_def launch_def draft_def)

lemma example_paths:
  "getPostFilePaths example_env = Inr [''hello.mdx'', ''launch.mdx'', ''draft.md'']"
  by (simp add: getPostFilePaths_def example_env_def regex_test_def)

lemma example_getPosts: "getPosts example_env = Inr [launch, draft, hello]"
  by code_simp

lemma example_valid: "valid_date hello" "valid_date launch" "valid_date draft"
  by (simp_all add: valid_date_def hello_def launch_def draft_def)

lemma example_sorted:
  "sorted_items compareDates [hello, launch, draft] = [launch, draft, hello]"
  by code_simp

lemma example_store_sorted:
  "sortPostsByDate 0 example_store = (0, example_store(0 := [launch, draft, hello]))"
proof -
  have "example_store 0 = [hello, launch, draft]"
    by (simp add: example_store_def)
  then show ?thesis
    by (simp only: sortPostsByDate_store example_sorted)
qed



subsection \<open>The extension pattern\<close>

text \<open>
  The pattern matches a string exactly when the string ends in \<^verbatim>\<open>.md\<close> or in \<^verbatim>\<open>.mdx\<close>, the
  match is that ending, and replacing the match by the empty string removes it.
\<close>

lemma match_here_Some:
  "match_here s = Some n \<longleftrightarrow> (s = ''.md'' \<and> n = 3) \<or> (s = ''.mdx'' \<and> n = 4)"
  by (cases s rule: match_here.cases) (auto split: list.splits)

lemma match_here_None:
  "match_here s = None \<longleftrightarrow> s \<noteq> ''.md'' \<and> s \<noteq> ''.mdx''"
  using match_here_Some [of s] by (cases "match_here s") auto

lemma regex_exec_None:
  "regex_exec k s = None \<longleftrightarrow> \<not> suffix ''.md'' s \<and> \<not> suffix ''.mdx'' s"
proof (induction s arbitrary: k)
  case Nil
  show ?case by simp
next
  case (Cons c s)
  show ?case
  proof (cases "match_here (c # s)")
    case None
    then have "c # s \<noteq> ''.md'' \<and> c # s \<noteq> ''.mdx''"
      using match_here_None [of "c # s"] by blast
    with None Cons show ?thesis
      by (auto simp: suffix_Cons)
  next
    case (Some n)
    then have "c # s = ''.md'' \<or> c # s = ''.mdx''"
      by (auto simp only: match_here_Some)
    with Some show ?thesis
      by (auto simp: suffix_Cons)
  qed
qed

lemma regex_test_iff: "regex_test path \<longleftrightarrow> suffix ''.md'' path \<or> suffix ''.mdx'' path"
  by (simp add: regex_test_def regex_exec_None)

lemma regex_exec_ext:
  assumes "ext = ''.md'' \<or> ext = ''.mdx''"
  shows "regex_exec k (b @ ext) = Some (k + length b, length ext)"
proof (induction b arbitrary: k)
  case Nil
  from assms show ?case by auto
next
  case (Cons c b)
  have "match_here (c # b @ ext) = None"
    using assms by (auto simp: match_here_None Cons_eq_append_conv append_eq_Cons_conv)
  with Cons show ?case by simp
qed

lemma regex_replace_ext:
  "ext = ''.md'' \<or> ext = ''.mdx'' \<Longrightarrow> regex_replace (b @ ext) = b"
  by (simp add: regex_replace_def regex_exec_ext)


text \<open>
  Claim C6. \<^verbatim>\<open>getPostFilePaths\<close> returns exactly the entries of the \<^verbatim>\<open>POSTS_PATH\<close> directory
  whose names end in \<^verbatim>\<open>.md\<close> or \<^verbatim>\<open>.mdx\<close>, in the order of the directory listing; every
  other entry is left out.
\<close>

theorem getPostFilePaths_extension:
  assumes "readdirSync e = Some names"
  shows "getPostFilePaths e = Inr (filter (\<lambda>n. suffix ''.md'' n \<or> suffix ''.mdx'' n) names)"
proof -
  have "regex_test = (\<lambda>n. suffix ''.md'' n \<or> suffix ''.mdx'' n)"
    by (rule ext) (rule regex_test_iff)
  with assms show ?thesis
    by (simp add: getPostFilePaths_def)
qed

text \<open>
  On the example directory the listing has four entries, and the three posts are returned
  in the order of the listing.
\<close>

theorem getPostFilePaths_extension_witness:
  "readdirSync example_env = Some [''hello.mdx'', ''notes.txt'', ''launch.mdx'', ''draft.md'']
   \<and> getPostFilePaths example_env = Inr [''hello.mdx'', ''launch.mdx'', ''draft.md'']
   \<and> filter (\<lambda>n. suffix ''.md'' n \<or> suffix ''.mdx'' n)
         [''hello.mdx'', ''notes.txt'', ''launch.mdx'', ''draft.md'']
       = [''hello.mdx'', ''launch.mdx'', ''draft.md'']"
proof -
  have listing: "readdirSync example_env = Some [''hello.mdx'', ''notes.txt'', ''launch.mdx'', ''draft.md'']"
    by (simp add: example_env_def)
  from getPostFilePaths_extension [OF listing] example_paths listing show ?thesis
    by simp
qed

subsection \<open>Sorting\<close>

text \<open>
  The sort permutes its input. When every date is valid the comparator is the order
  \<open>date_ge\<close>, which is transitive and total, and the result is sorted by it.
\<close>

lemma mset_place: "mset (place f x xs) = add_mset x (mset xs)"
  by (induction xs) simp_all

lemma mset_sorted_items: "mset (sorted_items f xs) = mset xs"
  by (induction xs) (simp_all add: mset_place)

lemma set_sorted_items: "set (sorted_items f xs) = set xs"
  using mset_sorted_items [of f xs] by (metis set_mset_mset)

lemma length_sorted_items: "length (sorted_items f xs) = length xs"
  using mset_sorted_items [of f xs] by (metis size_mset)

lemma sortCompare_dates:
  assumes "valid_date x" and "valid_date y"
  shows "sortCompare compareDates x y \<le> 0 \<longleftrightarrow> date_ge x y"
  using assms
  by (auto simp: sortCompare_def compareDates_def date_ge_def valid_date_def)

lemma date_ge_trans: "date_ge a b \<Longrightarrow> date_ge b c \<Longrightarrow> date_ge a c"
  by (auto simp: date_ge_def split: option.splits)

lemma date_ge_total: "valid_date a \<Longrightarrow> valid_date b \<Longrightarrow> date_ge a b \<or> date_ge b a"
  by (auto simp: date_ge_def valid_date_def)

lemma sorted_place:
  assumes "valid_date x" and "\<forall>p \<in> set xs. valid_date p" and "sorted_wrt date_ge xs"
  shows "sorted_wrt date_ge (place compareDates x xs)"
  using assms
proof (induction xs)
  case Nil
  show ?case by simp
next
  case (Cons y ys)
  show ?case
  proof (cases "date_ge x y")
    case True
    with Cons.prems have "\<forall>p \<in> set (y # ys). date_ge x p"
      by (auto intro: date_ge_trans)
    with True Cons.prems show ?thesis
      by (simp add: sortCompare_dates)
  next
    case False
    with Cons.prems have "date_ge y x"
      using date_ge_total [of x y] by simp
    moreover have "set (place compareDates x ys) = insert x (set ys)"
      using mset_place [of compareDates x ys] by (metis set_mset_add_mset_insert set_mset_mset)
    ultimately show ?thesis
      using False Cons by (simp add: sortCompare_dates)
  qed
qed

lemma sorted_sorted_items:
  "\<forall>p \<in> set xs. valid_date p \<Longrightarrow> sorted_wrt date_ge (sorted_items compareDates xs)"
  by (induction xs) (simp_all add: sorted_place set_sorted_items)

text \<open>
  A post with an invalid date cannot stand in an array of two or more posts that is in
  date-descending order, wherever it stands: the comparison with its neighbour is false.
\<close>

lemma invalid_date_never_descending:
  assumes "p \<in> set ps" and "\<not> valid_date p" and "2 \<le> length ps"
  shows "\<not> (\<forall>i. Suc i < length ps \<longrightarrow> date_ge (ps ! i) (ps ! Suc i))"
proof
  assume desc: "\<forall>i. Suc i < length ps \<longrightarrow> date_ge (ps ! i) (ps ! Suc i)"
  from assms(1) obtain k where k: "k < length ps" "ps ! k = p"
    by (auto simp: in_set_conv_nth)
  from assms(2) have never: "\<And>q. \<not> date_ge p q" "\<And>q. \<not> date_ge q p"
    by (auto simp: date_ge_def valid_date_def split: option.splits)
  show False
  proof (cases "Suc k < length ps")
    case True
    with desc have "date_ge (ps ! k) (ps ! Suc k)" by blast
    with k never show False by simp
  next
    case False
    with k assms(3) obtain j where j: "k = Suc j" "Suc j < length ps"
      by (cases k) auto
    with desc have "date_ge (ps ! j) (ps ! Suc j)" by blast
    with j k never show False by simp
  qed
qed

subsection \<open>What \<^verbatim>\<open>getPosts\<close> returns\<close>

lemma map_throwing_Inr: "map_throwing f xs = Inr ys \<longleftrightarrow> map f xs = map Inr ys"
proof (induction xs arbitrary: ys)
  case Nil
  show ?case by auto
next
  case (Cons x xs)
  show ?case
  proof (cases "f x")
    case (Inl err)
    then show ?thesis by (cases ys) auto
  next
    case (Inr y)
    show ?thesis
    proof (cases "map_throwing f xs")
      case (Inl err)
      then have "\<And>zs. map f xs \<noteq> map Inr zs"
        using Cons.IH by simp
      with Inl Inr show ?thesis by (cases ys) auto
    next
      case inner: (Inr zs)
      then have "map f xs = map Inr zs"
        using Cons.IH by simp
      with inner Inr show ?thesis
        by (cases ys) (auto simp: inj_map_eq_map [OF inj_Inr])
    qed
  qed
qed

lemma map_throwing_total:
  assumes "\<forall>x \<in> set xs. \<exists>y. f x = Inr y \<and> P y"
  shows "\<exists>ys. map_throwing f xs = Inr ys \<and> (\<forall>y \<in> set ys. P y)"
  using assms
proof (induction xs)
  case Nil
  show ?case by simp
next
  case (Cons x xs)
  then obtain y ys where "f x = Inr y" "P y" "map_throwing f xs = Inr ys" "\<forall>y \<in> set ys. P y"
    by auto
  then show ?case by simp
qed


lemma getPosts_Inr:
  "getPosts e = Inr posts \<longleftrightarrow>
     (\<exists>names loaded. readdirSync e = Some names
        \<and> map_throwing (readPost e) (filter regex_test names) = Inr loaded
        \<and> posts = sorted_items compareDates loaded)"
  by (auto simp: getPosts_def getPostFilePaths_def sortPostsByDate_store
           split: option.splits sum.splits)



text \<open>
  Claim C1. When the directory can be listed and every post file in it loads with a date
  that parses to a valid date, \<^verbatim>\<open>getPosts\<close> returns the loaded posts (each of them, once)
  sorted by date in descending order: for every pair of adjacent posts of the returned
  array, the date of the earlier element is greater than or equal to the date of the
  later one.
\<close>

theorem getPosts_sorted_by_date:
  assumes "readdirSync e = Some names"
    and "\<forall>n \<in> set names. regex_test n \<longrightarrow> (\<exists>p. readPost e n = Inr p \<and> valid_date p)"
  shows "\<exists>posts. getPosts e = Inr posts
           \<and> mset (map Inr posts) = mset (map (readPost e) (filter regex_test names))
           \<and> (\<forall>i. Suc i < length posts \<longrightarrow> date_ge (posts ! i) (posts ! Suc i))"
proof -
  let ?paths = "filter regex_test names"
  from assms(2) have "\<forall>n \<in> set ?paths. \<exists>p. readPost e n = Inr p \<and> valid_date p"
    by simp
  then obtain loaded where
    loaded: "map_throwing (readPost e) ?paths = Inr loaded"
    and valid: "\<forall>p \<in> set loaded. valid_date p"
    using map_throwing_total [of ?paths "readPost e" valid_date] by blast
  let ?posts = "sorted_items compareDates loaded"
  from assms(1) loaded have returned: "getPosts e = Inr ?posts"
    by (auto simp: getPosts_Inr)
  have "mset (map Inr ?posts) = mset (map Inr loaded)"
    by (simp only: mset_map mset_sorted_items)
  also from loaded have "\<dots> = mset (map (readPost e) ?paths)"
    by (simp add: map_throwing_Inr)
  finally have perm: "mset (map Inr ?posts) = mset (map (readPost e) ?paths)" .
  from valid have "sorted_wrt date_ge ?posts"
    by (rule sorted_sorted_items)
  then have "\<forall>i. Suc i < length ?posts \<longrightarrow> date_ge (?posts ! i) (?posts ! Suc i)"
    by (simp add: sorted_wrt_iff_nth_less)
  with returned perm show ?thesis
    by blast
qed

text \<open>On the example directory the posts come back as March, February, January.\<close>

theorem getPosts_sorted_by_date_witness:
  "readdirSync example_env = Some [''hello.mdx'', ''notes.txt'', ''launch.mdx'', ''draft.md'']
   \<and> (\<exists>posts. getPosts example_env = Inr posts \<and> posts = [launch, draft, hello]
         \<and> date_ge (posts ! 0) (posts ! 1) \<and> date_ge (posts ! 1) (posts ! 2))"
proof -
  let ?names = "[''hello.mdx'', ''notes.txt'', ''launch.mdx'', ''draft.md'']"
  have listing: "readdirSync example_env = Some ?names"
    by (simp add: example_env_def)
  have loads: "\<forall>n \<in> set ?names. regex_test n \<longrightarrow> (\<exists>p. readPost example_env n = Inr p \<and> valid_date p)"
    by (simp add: example_readPost example_valid regex_test_def)
  from getPosts_sorted_by_date [OF listing loads]
  obtain posts where posts: "getPosts example_env = Inr posts"
    and sorted: "\<forall>i. Suc i < length posts \<longrightarrow> date_ge (posts ! i) (posts ! Suc i)"
    by blast
  from posts have eq: "posts = [launch, draft, hello]"
    by (simp add: example_getPosts)
  from sorted [rule_format, of 0] sorted [rule_format, of 1] eq
  have "date_ge (posts ! 0) (posts ! 1)" "date_ge (posts ! 1) (posts ! 2)"
    by simp_all
  with listing posts eq show ?thesis
    by blast
qed

subsection \<open>In-place sorting\<close>

text \<open>
  Claim C9, as amended. \<^verbatim>\<open>sortPostsByDate\<close> returns the reference it was given, and after
  the call the array behind that reference holds a permutation of its former elements
  (the input is overwritten, every other array is untouched); when every date of the
  array is valid, that permutation is in date-descending order.
\<close>

theorem sortPostsByDate_in_place:
  assumes "sortPostsByDate posts h = (r, h')"
  shows "r = posts
       \<and> mset (h' posts) = mset (h posts)
       \<and> (\<forall>other. other \<noteq> posts \<longrightarrow> h' other = h other)
       \<and> ((\<forall>p \<in> set (h posts). valid_date p) \<longrightarrow>
            (\<forall>i. Suc i < length (h' posts) \<longrightarrow> date_ge (h' posts ! i) (h' posts ! Suc i)))"
proof -
  from assms have r: "r = posts" and h': "h' = h(posts := sorted_items compareDates (h posts))"
    by (auto simp: sortPostsByDate_store)
  have "\<forall>i. Suc i < length (h' posts) \<longrightarrow> date_ge (h' posts ! i) (h' posts ! Suc i)"
    if "\<forall>p \<in> set (h posts). valid_date p"
  proof -
    from that have "sorted_wrt date_ge (sorted_items compareDates (h posts))"
      by (rule sorted_sorted_items)
    then show ?thesis
      by (simp add: h' sorted_wrt_iff_nth_less)
  qed
  with r show ?thesis
    by (simp add: h' mset_sorted_items)
qed

text \<open>
  The first array of the example store is sorted in place; the second array is not
  touched by the call.
\<close>

theorem sortPostsByDate_in_place_witness:
  "example_store 0 = [hello, launch, draft]
   \<and> fst (sortPostsByDate 0 example_store) = 0
   \<and> snd (sortPostsByDate 0 example_store) 0 = [launch, draft, hello]
   \<and> snd (sortPostsByDate 0 example_store) 1 = example_store 1
   \<and> date_ge (snd (sortPostsByDate 0 example_store) 0 ! 0) (snd (sortPostsByDate 0 example_store) 0 ! 1)"
proof -
  let ?h' = "example_store(0 := [launch, draft, hello])"
  have before: "example_store 0 = [hello, launch, draft]"
    by (simp add: example_store_def)
  then have valid: "\<forall>p \<in> set (example_store 0). valid_date p"
    by (simp add: example_valid)
  from sortPostsByDate_in_place [OF example_store_sorted] valid
  have other: "\<forall>other. other \<noteq> 0 \<longrightarrow> ?h' other = example_store other"
    and sorted: "\<forall>i. Suc i < length (?h' 0) \<longrightarrow> date_ge (?h' 0 ! i) (?h' 0 ! Suc i)"
    by simp_all
  from other have "?h' 1 = example_store 1"
    by simp
  moreover from sorted [rule_format, of 0] have "date_ge (?h' 0 ! 0) (?h' 0 ! 1)"
    by simp
  ultimately show ?thesis
    using before by (simp add: example_store_sorted)
qed

text \<open>
  Claim C9 as stated, for every input array, fails: the second array of the example store
  holds a post whose date does not parse, between the posts of January and March. After
  the call the array is as it was, its first two elements are not in descending order,
  and the post of January stands before the post of March. By
  \<open>invalid_date_never_descending\<close> no permutation of this array is in date-descending
  order, so this does not depend on how the engine orders an array its comparator is
  inconsistent on.
\<close>

theorem sortPostsByDate_invalid_date:
  "example_store 1 = [hello, teaser, launch]
   \<and> fst (sortPostsByDate 1 example_store) = 1
   \<and> snd (sortPostsByDate 1 example_store) 1 = [hello, teaser, launch]
   \<and> \<not> date_ge (snd (sortPostsByDate 1 example_store) 1 ! 0) (snd (sortPostsByDate 1 example_store) 1 ! 1)
   \<and> \<not> date_ge (snd (sortPostsByDate 1 example_store) 1 ! 0) (snd (sortPostsByDate 1 example_store) 1 ! 2)"
proof -
  have before: "example_store 1 = [hello, teaser, launch]"
    by (simp add: example_store_def)
  have "sorted_items compareDates [hello, teaser, launch] = [hello, teaser, launch]"
    by code_simp
  with before have "sortPostsByDate 1 example_store = (1, example_store(1 := [hello, teaser, launch]))"
    by (simp only: sortPostsByDate_store)
  moreover have "\<not> date_ge hello teaser" "\<not> date_ge hello launch"
    by (simp_all add: date_ge_def hello_def teaser_def launch_def)
  ultimately show ?thesis
    using before by simp
qed

subsection \<open>Adjacent posts\<close>














subsection \<open>From a file name to its slug and back\<close>

text \<open>
  The slug of a file name is the name without its extension; every lookup appends
  \<^verbatim>\<open>.mdx\<close> to the slug. For a \<^verbatim>\<open>.mdx\<close> file this gives the file name back, for a \<^verbatim>\<open>.md\<close> file
  it never does.
\<close>

lemma mdx_slug_matches: "regex_replace (b @ ''.mdx'') @ ''.mdx'' = b @ ''.mdx''"
  using regex_replace_ext [of "''.mdx''" b] by simp

lemma md_slug_never_matches: "regex_replace (b @ ''.md'') @ ''.mdx'' \<noteq> b @ ''.md''"
  using regex_replace_ext [of "''.md''" b] by simp

text \<open>
  Claim C4 says that the slug of every file name that \<^verbatim>\<open>getPostFilePaths\<close> returns finds
  that file again. The code does not do this for a \<^verbatim>\<open>.md\<close> file. In a directory whose only
  post is \<^verbatim>\<open>draft.md\<close>, \<^verbatim>\<open>getPostFilePaths\<close> returns \<^verbatim>\<open>draft.md\<close>, its slug is \<^verbatim>\<open>draft\<close>,
  \<^verbatim>\<open>getPostBySlug('draft')\<close> tries to read \<^verbatim>\<open>draft.mdx\<close> and throws, and the file name match
  finds no post: \<^verbatim>\<open>getNextPostBySlug('draft')\<close> and \<^verbatim>\<open>getPreviousPostBySlug('draft')\<close> work
  from the index \<open>-1\<close>, so that the previous post of \<^verbatim>\<open>draft\<close> is \<^verbatim>\<open>draft\<close> itself.
\<close>

theorem md_slug_lookup_fails:
  "getPostFilePaths md_only_env = Inr [''draft.md'']
   \<and> regex_replace ''draft.md'' = ''draft''
   \<and> getPostBySlug md_only_env ''draft'' = Inl FsError
   \<and> getPosts md_only_env = Inr [draft]
   \<and> find (\<lambda>post. filePath post = ''draft'' @ ''.mdx'') [draft] = None
   \<and> getNextPostBySlug md_only_env ''draft'' = Inr None
   \<and> getPreviousPostBySlug md_only_env ''draft'' =
       Inr (Some \<lparr>link_title = Some ''Draft'', link_slug = ''draft''\<rparr>)"
proof -
  have paths: "getPostFilePaths md_only_env = Inr [''draft.md'']"
    by (simp add: getPostFilePaths_def md_only_env_def regex_test_def)
  have slug: "regex_replace ''draft.md'' = ''draft''"
    by (simp add: regex_replace_def)
  have read: "getPostBySlug md_only_env ''draft'' = Inl FsError"
    by (simp add: getPostBySlug_def md_only_env_def)
  have posts: "getPosts md_only_env = Inr [draft]"
    by code_simp
  have found: "find (\<lambda>post. filePath post = ''draft'' @ ''.mdx'') [draft] = None"
    by (simp add: draft_def)
  have "next": "getNextPostBySlug md_only_env ''draft'' = Inr None"
    by code_simp
  have previous: "getPreviousPostBySlug md_only_env ''draft'' =
       Inr (Some \<lparr>link_title = Some ''Draft'', link_slug = ''draft''\<rparr>)"
    by code_simp
  from paths slug read posts found "next" previous show ?thesis
    by (intro conjI)
qed

subsection \<open>Global data\<close>


lemma decoded_or_throws:
  "penv var = Some v \<Longrightarrow> v \<noteq> [] \<Longrightarrow> decodeURI v = None \<Longrightarrow> decoded_or penv var dflt = Inl URIError"
  by (simp add: decoded_or_def)




subsection \<open>The theme plugin\<close>











subsection \<open>The theme of the layout\<close>

lemma classList_add_set: "set (classList_add token tokens) = insert token (set tokens)"
  by (auto simp: classList_add_def)

lemma classList_add_others:
  "filter (\<lambda>t. t \<noteq> token) (classList_add token tokens) = filter (\<lambda>t. t \<noteq> token) tokens"
  by (simp add: classList_add_def)

lemma classList_remove_set: "set (classList_remove token tokens) = set tokens - {token}"
  by (auto simp: classList_remove_def)

lemma classList_remove_others:
  "filter (\<lambda>t. t \<noteq> token) (classList_remove token tokens) = filter (\<lambda>t. t \<noteq> token) tokens"
  by (simp add: classList_remove_def)

lemma Layout_mount_classList: "classList (Layout_mount b) = classList (setAppTheme b)"
  by (simp add: Layout_mount_def handleSystemThemeChange_def)

text \<open>
  Claim C10. When \<^verbatim>\<open>Layout\<close> mounts, the class \<^verbatim>\<open>dark\<close> is added to the classes of the
  document root when the \<^verbatim>\<open>theme\<close> item of \<^verbatim>\<open>localStorage\<close> is \<^verbatim>\<open>dark\<close>, it is removed when the
  item is \<^verbatim>\<open>light\<close>, and for every other stored value, and when the item is absent, the
  class list is unchanged. The other classes and \<^verbatim>\<open>localStorage\<close> are never changed.
\<close>

theorem Layout_mount_theme:
  "(localStorage b ''theme'' = Some ''dark'' \<longrightarrow>
      set (classList (Layout_mount b)) = insert ''dark'' (set (classList b)))
   \<and> (localStorage b ''theme'' = Some ''light'' \<longrightarrow>
      set (classList (Layout_mount b)) = set (classList b) - {''dark''})
   \<and> (localStorage b ''theme'' \<noteq> Some ''dark'' \<and> localStorage b ''theme'' \<noteq> Some ''light'' \<longrightarrow>
      classList (Layout_mount b) = classList b)
   \<and> filter (\<lambda>t. t \<noteq> ''dark'') (classList (Layout_mount b)) = filter (\<lambda>t. t \<noteq> ''dark'') (classList b)
   \<and> localStorage (Layout_mount b) = localStorage b"
proof -
  have dark: "set (classList (setAppTheme b)) = insert ''dark'' (set (classList b))"
    if "localStorage b ''theme'' = Some ''dark''"
    using that by (simp add: setAppTheme_def classList_add_set)
  have light: "set (classList (setAppTheme b)) = set (classList b) - {''dark''}"
    if "localStorage b ''theme'' = Some ''light''"
    using that by (simp add: setAppTheme_def classList_remove_set)
  have other: "classList (setAppTheme b) = classList b"
    if "localStorage b ''theme'' \<noteq> Some ''dark'' \<and> localStorage b ''theme'' \<noteq> Some ''light''"
    using that by (simp add: setAppTheme_def)
  have rest: "filter (\<lambda>t. t \<noteq> ''dark'') (classList (setAppTheme b)) = filter (\<lambda>t. t \<noteq> ''dark'') (classList b)"
    by (simp add: setAppTheme_def classList_add_others classList_remove_others Let_def)
  have storage: "localStorage (Layout_mount b) = localStorage b"
    by (simp add: Layout_mount_def handleSystemThemeChange_def setAppTheme_def Let_def)
  from dark light other rest storage show ?thesis
    unfolding Layout_mount_classList by (intro conjI impI)
qed

text \<open>
  The four cases on concrete browsers: \<^verbatim>\<open>dark\<close> is appended, \<^verbatim>\<open>dark\<close> is removed, and the
  class list stays for the value \<^verbatim>\<open>system\<close> and for no value.
\<close>

theorem Layout_mount_theme_witness:
  "classList (Layout_mount \<lparr>localStorage = map_of [(''theme'', ''dark'')], classList = [''antialiased''],
                            onchange_set = False\<rparr>) = [''antialiased'', ''dark'']
   \<and> classList (Layout_mount \<lparr>localStorage = map_of [(''theme'', ''light'')],
                              classList = [''dark'', ''antialiased''], onchange_set = False\<rparr>) = [''antialiased'']
   \<and> classList (Layout_mount \<lparr>localStorage = map_of [(''theme'', ''system'')], classList = [''dark''],
                              onchange_set = False\<rparr>) = [''dark'']
   \<and> classList (Layout_mount \<lparr>localStorage = map_of [], classList = [''dark''],
                              onchange_set = False\<rparr>) = [''dark'']"
proof -
  let ?stored = "\<lparr>localStorage = map_of [(''theme'', ''system'')], classList = [''dark''], onchange_set = False\<rparr>"
  let ?absent = "\<lparr>localStorage = map_of [], classList = [''dark''], onchange_set = False\<rparr>"
  from Layout_mount_theme [of ?stored] have "classList (Layout_mount ?stored) = [''dark'']"
    by simp
  moreover from Layout_mount_theme [of ?absent] have "classList (Layout_mount ?absent) = [''dark'']"
    by simp
  ultimately show ?thesis
    by (simp add: Layout_mount_def handleSystemThemeChange_def setAppTheme_def classList_add_def
        classList_remove_def)
qed

end
